theory Spec2Isabelle
  imports Main
begin

section \<open>Poll actions of alx-polly: data model\<close>

text \<open>
  The server actions of \<^verbatim>\<open>src/app/lib/actions/poll-actions.ts\<close> talk to two external
  collaborators: the identity provider (\<^verbatim>\<open>supabase.auth.getUser()\<close>) and the Poll Store
  (the tables \<^verbatim>\<open>polls\<close>, \<^verbatim>\<open>votes\<close> and \<^verbatim>\<open>profiles\<close>, reached through the
  PostgREST query builder). Every action is modelled as a function from the request's
  environment and the store to the returned object and the store after the call.

  Rows are records with the columns the code reads and writes. Identifiers are strings,
  as in the source; timestamps are natural numbers. A vote's \<^verbatim>\<open>user_id\<close> is optional:
  the code writes \<^verbatim>\<open>user?.id ?? null\<close>. The option index is an \<^typ>\<open>int\<close>.
\<close>

record poll =
  p_id :: string
  p_user_id :: string
  p_question :: string
  p_options :: "string list"
  p_created_at :: nat

record vote =
  v_id :: string
  v_poll_id :: string
  v_user_id :: "string option"
  v_option_index :: int
  v_created_at :: nat

record profile =
  pr_user_id :: string
  pr_role :: string

record db =
  polls :: "poll list"
  votes :: "vote list"
  profiles :: "profile list"

text \<open>
  An error object of the client library carries a code and a message; the actions return
  \<^verbatim>\<open>error.message\<close> and, in one place, compare \<^verbatim>\<open>error.code\<close>.
\<close>

record pg_error =
  err_code :: string
  err_message :: string

record user =
  u_id :: string

text \<open>
  The storage calls an action can make. A request's environment says, for each of them,
  whether the collaborator fails that call (network failure, a constraint of the schema,
  row-level security), and with which error. The schema itself is not part of the
  repository, so its constraints appear only as such failures.
\<close>

datatype call =
  InsertPoll | SelectPolls | SelectPoll | SelectVote | InsertVote
  | SelectProfile | DeletePoll | UpdatePoll

text \<open>
  The environment of one request: what \<^verbatim>\<open>auth.getUser()\<close> answers (the code reads
  \<^verbatim>\<open>data.user\<close> and \<^verbatim>\<open>error\<close> independently), the failures of the storage calls, and
  the values the store generates for a new row (\<^verbatim>\<open>id\<close>, \<^verbatim>\<open>created_at\<close>).
\<close>

record env =
  auth_user :: "user option"
  auth_error :: "pg_error option"
  fault :: "call \<Rightarrow> pg_error option"
  fresh_id :: string
  now :: nat

subsection \<open>The form data\<close>

text \<open>
  A \<^verbatim>\<open>FormData\<close> is an ordered list of name/value entries; \<^verbatim>\<open>get\<close> returns the first
  value of a name or \<^verbatim>\<open>null\<close>, \<^verbatim>\<open>getAll\<close> every value of the name in order. The
  actions cast the values to strings, so entries are strings here.
\<close>

type_synonym form_data = "(string \<times> string) list"

definition fd_get :: "string \<Rightarrow> form_data \<Rightarrow> string option" where
  "fd_get name fd = map_of fd name"

definition fd_getAll :: "string \<Rightarrow> form_data \<Rightarrow> string list" where
  "fd_getAll name fd = map snd (filter (\<lambda>e. fst e = name) fd)"

text \<open>\<^verbatim>\<open>Boolean(s)\<close> on a string: only the empty string is falsy.\<close>

definition truthy :: "string \<Rightarrow> bool" where
  "truthy s = (s \<noteq> [])"

subsection \<open>The query builder\<close>

text \<open>
  \<^verbatim>\<open>.single()\<close> answers with the row when exactly one row matches, and otherwise with
  the error of code \<^verbatim>\<open>PGRST116\<close> (no row, or more than one). A failed call answers with
  its error and no data.
\<close>

definition pgrst116 :: pg_error where
  "pgrst116 = \<lparr>err_code = ''PGRST116'',
               err_message = ''JSON object requested, multiple (or no) rows returned''\<rparr>"

definition single :: "pg_error option \<Rightarrow> 'a list \<Rightarrow> 'a option \<times> pg_error option" where
  "single f rows =
     (case f of
        Some e \<Rightarrow> (None, Some e)
      | None \<Rightarrow> (case rows of [r] \<Rightarrow> (Some r, None) | _ \<Rightarrow> (None, Some pgrst116)))"

definition select_rows :: "pg_error option \<Rightarrow> 'a list \<Rightarrow> 'a list option \<times> pg_error option" where
  "select_rows f rows = (case f of Some e \<Rightarrow> (None, Some e) | None \<Rightarrow> (Some rows, None))"

text \<open>A write either fails and leaves the store as it was, or is applied.\<close>

definition store_write :: "pg_error option \<Rightarrow> db \<Rightarrow> db \<Rightarrow> pg_error option \<times> db" where
  "store_write f d d' = (case f of Some e \<Rightarrow> (Some e, d) | None \<Rightarrow> (None, d'))"

section \<open>The actions\<close>

text \<open>
  Every action ends a storage write the same way:
  \<^verbatim>\<open>if (error) return { error: error.message }; return { error: null }\<close>.
\<close>

definition returned :: "pg_error option \<times> db \<Rightarrow> string option \<times> db" where
  "returned r = (case r of (error, d') \<Rightarrow> (map_option err_message error, d'))"

abbreviation msg_invalid_input :: string where
  "msg_invalid_input \<equiv> ''Please provide a question and at least two options.''"

abbreviation msg_login_create :: string where
  "msg_login_create \<equiv> ''You must be logged in to create a poll.''"

abbreviation msg_not_authenticated :: string where
  "msg_not_authenticated \<equiv> ''Not authenticated''"

abbreviation msg_already_voted :: string where
  "msg_already_voted \<equiv> ''You have already voted on this poll.''"

abbreviation msg_login_delete :: string where
  "msg_login_delete \<equiv> ''You must be logged in to delete a poll.''"

abbreviation msg_not_found_delete :: string where
  "msg_not_found_delete \<equiv> ''Poll not found or you don't have permission to delete it.''"

abbreviation msg_not_authorized_delete :: string where
  "msg_not_authorized_delete \<equiv> ''You are not authorized to delete this poll.''"

abbreviation msg_login_update :: string where
  "msg_login_update \<equiv> ''You must be logged in to update a poll.''"

abbreviation msg_not_found_update :: string where
  "msg_not_found_update \<equiv> ''Poll not found or you don't have permission to update it.''"

abbreviation msg_not_authorized_update :: string where
  "msg_not_authorized_update \<equiv> ''You are not authorized to update this poll.''"

text \<open>
  \<^verbatim>\<open>createPoll(formData)\<close>: the question and the non-empty options are read from the
  form and validated first (\<^verbatim>\<open>!question || options.length < 2\<close>), then the caller is
  fetched from the session, then the row is inserted with \<^verbatim>\<open>user_id: user.id\<close>.
\<close>

definition createPoll :: "env \<Rightarrow> form_data \<Rightarrow> db \<Rightarrow> string option \<times> db" where
  "createPoll env formData d =
     (let options = filter truthy (fd_getAll ''options'' formData)
      in case fd_get ''question'' formData of
           None \<Rightarrow> (Some msg_invalid_input, d)
         | Some question \<Rightarrow>
             if \<not> truthy question \<or> length options < 2 then (Some msg_invalid_input, d)
             else (case auth_error env of
                     Some userError \<Rightarrow> (Some (err_message userError), d)
                   | None \<Rightarrow>
                       (case auth_user env of
                          None \<Rightarrow> (Some msg_login_create, d)
                        | Some u \<Rightarrow>
                            returned (store_write (fault env InsertPoll) d
                              (d\<lparr>polls := polls d @
                                   [\<lparr>p_id = fresh_id env, p_user_id = u_id u,
                                     p_question = question, p_options = options,
                                     p_created_at = now env\<rparr>]\<rparr>)))))"

text \<open>
  \<^verbatim>\<open>getUserPolls()\<close>: the caller's polls, newest first. The error of
  \<^verbatim>\<open>auth.getUser()\<close> is not read here, only the user.
\<close>

definition getUserPolls :: "env \<Rightarrow> db \<Rightarrow> poll list \<times> string option" where
  "getUserPolls env d =
     (case auth_user env of
        None \<Rightarrow> ([], Some msg_not_authenticated)
      | Some u \<Rightarrow>
          (case select_rows (fault env SelectPolls)
                  (rev (sort_key p_created_at (filter (\<lambda>p. p_user_id p = u_id u) (polls d)))) of
             (_, Some error) \<Rightarrow> ([], Some (err_message error))
           | (data, None) \<Rightarrow> (case data of None \<Rightarrow> [] | Some rows \<Rightarrow> rows, None)))"

text \<open>
  \<^verbatim>\<open>submitVote(pollId, optionIndex)\<close>: an authenticated caller's earlier vote on the
  poll is looked up with \<^verbatim>\<open>.single()\<close>; a found vote ends the call, as does a lookup
  error other than \<^verbatim>\<open>PGRST116\<close>. Then the vote is inserted. The poll itself is not
  read.
\<close>

text \<open>
  The caller's votes on a poll, the query of the duplicate check:
  \<^verbatim>\<open>from("votes").select("id").eq("poll_id", pollId).eq("user_id", user.id)\<close>.
\<close>

definition votes_of :: "db \<Rightarrow> string \<Rightarrow> string \<Rightarrow> vote list" where
  "votes_of d pollId uid =
     filter (\<lambda>v. v_poll_id v = pollId \<and> v_user_id v = Some uid) (votes d)"

definition submitVote :: "env \<Rightarrow> string \<Rightarrow> int \<Rightarrow> db \<Rightarrow> string option \<times> db" where
  "submitVote env pollId optionIndex d =
     (let usr = auth_user env;
          ins = returned (store_write (fault env InsertVote) d
                  (d\<lparr>votes := votes d @
                       [\<lparr>v_id = fresh_id env, v_poll_id = pollId,
                         v_user_id = map_option u_id usr,
                         v_option_index = optionIndex,
                         v_created_at = now env\<rparr>]\<rparr>))
      in case usr of
           None \<Rightarrow> ins
         | Some u \<Rightarrow>
             (case single (fault env SelectVote) (votes_of d pollId (u_id u)) of
                (Some existingVote, _) \<Rightarrow> (Some msg_already_voted, d)
              | (None, Some voteError) \<Rightarrow>
                  if err_code voteError \<noteq> ''PGRST116'' then (Some (err_message voteError), d)
                  else ins
              | (None, None) \<Rightarrow> ins))"

text \<open>
  The role lookup of \<^verbatim>\<open>deletePoll\<close> and \<^verbatim>\<open>updatePoll\<close>:
  \<^verbatim>\<open>from('profiles').select('role').eq('user_id', user.id).single()\<close> followed by the
  test \<^verbatim>\<open>!profileError && profile?.role === 'admin'\<close>.
\<close>

definition profile_is_admin :: "env \<Rightarrow> string \<Rightarrow> db \<Rightarrow> bool" where
  "profile_is_admin env uid d =
     (case single (fault env SelectProfile) (filter (\<lambda>r. pr_user_id r = uid) (profiles d)) of
        (Some prof, None) \<Rightarrow> pr_role prof = ''admin''
      | _ \<Rightarrow> False)"

text \<open>
  \<^verbatim>\<open>deletePoll(id)\<close>: session, then the poll's owner is fetched, then the role is
  consulted when the caller is not the owner, then the row is deleted.
\<close>

definition deletePoll :: "env \<Rightarrow> string \<Rightarrow> db \<Rightarrow> string option \<times> db" where
  "deletePoll env ident d =
     (case auth_error env of
        Some userError \<Rightarrow> (Some (err_message userError), d)
      | None \<Rightarrow>
          (case auth_user env of
             None \<Rightarrow> (Some msg_login_delete, d)
           | Some u \<Rightarrow>
               (case single (fault env SelectPoll) (filter (\<lambda>p. p_id p = ident) (polls d)) of
                  (Some pl, None) \<Rightarrow>
                    if p_user_id pl \<noteq> u_id u \<and> \<not> profile_is_admin env (u_id u) d
                    then (Some msg_not_authorized_delete, d)
                    else returned (store_write (fault env DeletePoll) d
                           (d\<lparr>polls := filter (\<lambda>p. p_id p \<noteq> ident) (polls d)\<rparr>))
                | _ \<Rightarrow> (Some msg_not_found_delete, d))))"

text \<open>
  \<^verbatim>\<open>updatePoll(pollId, formData)\<close>: validation of the form, session, fetch of the
  poll's owner, role lookup for a caller who is not the owner, then the update of
  \<^verbatim>\<open>question\<close> and \<^verbatim>\<open>options\<close> on the rows with this id, restricted to the caller's
  own rows unless the caller is an admin.
\<close>

definition updatePoll :: "env \<Rightarrow> string \<Rightarrow> form_data \<Rightarrow> db \<Rightarrow> string option \<times> db" where
  "updatePoll env pollId formData d =
     (let options = filter truthy (fd_getAll ''options'' formData)
      in case fd_get ''question'' formData of
           None \<Rightarrow> (Some msg_invalid_input, d)
         | Some question \<Rightarrow>
             if \<not> truthy question \<or> length options < 2 then (Some msg_invalid_input, d)
             else (case auth_error env of
                     Some userError \<Rightarrow> (Some (err_message userError), d)
                   | None \<Rightarrow>
                       (case auth_user env of
                          None \<Rightarrow> (Some msg_login_update, d)
                        | Some u \<Rightarrow>
                            (case single (fault env SelectPoll)
                                    (filter (\<lambda>p. p_id p = pollId) (polls d)) of
                               (Some pl, None) \<Rightarrow>
                                 (let isOwner = (p_user_id pl = u_id u);
                                      isAdmin = (\<not> isOwner \<and> profile_is_admin env (u_id u) d)
                                  in if \<not> isOwner \<and> \<not> isAdmin
                                     then (Some msg_not_authorized_update, d)
                                     else returned (store_write (fault env UpdatePoll) d
                                            (d\<lparr>polls :=
                                                 map (\<lambda>p. if p_id p = pollId \<and>
                                                              (isAdmin \<or> p_user_id p = u_id u)
                                                           then p\<lparr>p_question := question,
                                                                  p_options := options\<rparr>
                                                           else p)
                                                     (polls d)\<rparr>)))
                             | _ \<Rightarrow> (Some msg_not_found_update, d)))))"

section \<open>Notions used by the properties\<close>

text \<open>
  The write rule of the specification, read on the store: the identity owns the poll, or
  the \<^verbatim>\<open>profiles\<close> table records the role \<^verbatim>\<open>admin\<close> for it.
\<close>

definition has_role :: "db \<Rightarrow> string \<Rightarrow> string \<Rightarrow> bool" where
  "has_role d uid r = (\<exists>pr\<in>set (profiles d). pr_user_id pr = uid \<and> pr_role pr = r)"

definition canWrite :: "db \<Rightarrow> user \<Rightarrow> poll \<Rightarrow> bool" where
  "canWrite d i p = (u_id i = p_user_id p \<or> has_role d (u_id i) ''admin'')"

text \<open>
  The form passes the validation of \<^verbatim>\<open>createPoll\<close> and \<^verbatim>\<open>updatePoll\<close>: a non-empty
  question and at least two non-empty options.
\<close>

definition valid_form :: "form_data \<Rightarrow> bool" where
  "valid_form fd =
     ((case fd_get ''question'' fd of None \<Rightarrow> False | Some q \<Rightarrow> truthy q) \<and>
      2 \<le> length (filter truthy (fd_getAll ''options'' fd)))"

text \<open>The row the store appends for a vote submitted in a request.\<close>

definition new_vote :: "env \<Rightarrow> string \<Rightarrow> int \<Rightarrow> vote" where
  "new_vote env pollId optionIndex =
     \<lparr>v_id = fresh_id env, v_poll_id = pollId, v_user_id = map_option u_id (auth_user env),
      v_option_index = optionIndex, v_created_at = now env\<rparr>"

text \<open>
  A sequence of \<^verbatim>\<open>submitVote\<close> requests on one poll, served one after the other; the
  results are collected in order.
\<close>

fun submitVotes :: "string \<Rightarrow> (env \<times> int) list \<Rightarrow> db \<Rightarrow> string option list \<times> db" where
  "submitVotes pollId [] d = ([], d)"
| "submitVotes pollId ((env, optionIndex) # reqs) d =
     (case submitVote env pollId optionIndex d of
        (r, d') \<Rightarrow> (case submitVotes pollId reqs d' of (rs, d'') \<Rightarrow> (r # rs, d'')))"

subsection \<open>A small store and its callers\<close>

definition ex_poll :: poll where
  "ex_poll = \<lparr>p_id = ''p1'', p_user_id = ''alice'', p_question = ''Best color?'',
              p_options = [''Red'', ''Blue''], p_created_at = 1\<rparr>"

definition ex_db :: db where
  "ex_db = \<lparr>polls = [ex_poll], votes = [],
            profiles = [\<lparr>pr_user_id = ''alice'', pr_role = ''member''\<rparr>,
                        \<lparr>pr_user_id = ''bob'', pr_role = ''member''\<rparr>,
                        \<lparr>pr_user_id = ''root'', pr_role = ''admin''\<rparr>]\<rparr>"

definition ex_env :: "string option \<Rightarrow> env" where
  "ex_env who = \<lparr>auth_user = map_option (\<lambda>n. \<lparr>u_id = n\<rparr>) who, auth_error = None,
                 fault = (\<lambda>c. None), fresh_id = ''n1'', now = 2\<rparr>"

definition ex_form :: form_data where
  "ex_form = [(''question'', ''Best season?''), (''options'', ''Winter''),
              (''options'', []), (''options'', ''Summer'')]"

definition ex_conflict :: pg_error where
  "ex_conflict = \<lparr>err_code = ''23505'',
                  err_message = ''duplicate key value violates unique constraint''\<rparr>"

definition ex_unavailable :: pg_error where
  "ex_unavailable = \<lparr>err_code = ''503'', err_message = ''Service Unavailable''\<rparr>"

definition ex_env_failing :: "call \<Rightarrow> pg_error \<Rightarrow> string option \<Rightarrow> env" where
  "ex_env_failing c e who = (ex_env who)\<lparr>fault := (\<lambda>c'. if c' = c then Some e else None)\<rparr>"

definition ex_vote :: vote where
  "ex_vote = \<lparr>v_id = ''n1'', v_poll_id = ''p1'', v_user_id = Some ''bob'',
              v_option_index = 0, v_created_at = 2\<rparr>"

definition ex_db_voted :: db where
  "ex_db_voted = ex_db\<lparr>votes := [ex_vote]\<rparr>"

lemmas ex_defs =
  ex_poll_def ex_db_def ex_env_def ex_form_def ex_conflict_def ex_unavailable_def
  ex_env_failing_def ex_vote_def ex_db_voted_def

section \<open>Auxiliary facts\<close>

subsection \<open>The query builder\<close>

lemma filter_key_unique:
  "distinct (map f xs) \<Longrightarrow> x \<in> set xs \<Longrightarrow> filter (\<lambda>y. f y = f x) xs = [x]"
proof (induction xs)
  case Nil
  then show ?case by simp
next
  case (Cons a xs)
  show ?case
  proof (cases "a = x")
    case True
    with Cons.prems have "\<forall>y\<in>set xs. f y \<noteq> f x" by (auto simp: image_iff)
    then have "filter (\<lambda>y. f y = f x) xs = []" by (simp add: filter_empty_conv)
    with True show ?thesis by simp
  next
    case False
    with Cons.prems have "x \<in> set xs" "f a \<noteq> f x" by (auto simp: image_iff)
    with Cons show ?thesis by simp
  qed
qed

lemma single_ok: "single None [r] = (Some r, None)"
  by (simp add: single_def)

lemma single_none: "single None [] = (None, Some pgrst116)"
  by (simp add: single_def)

lemma single_fault: "single (Some e) rows = (None, Some e)"
  by (simp add: single_def)

lemma pgrst116_code: "err_code pgrst116 = ''PGRST116''"
  by (simp add: pgrst116_def)

text \<open>
  With \<^verbatim>\<open>user_id\<close> a key of \<^verbatim>\<open>profiles\<close> and the lookup not failed, the role test of
  the code is the presence of an \<^verbatim>\<open>admin\<close> row.
\<close>

lemma profile_is_admin_has_role:
  assumes "distinct (map pr_user_id (profiles d))" and "fault env SelectProfile = None"
  shows "profile_is_admin env uid d = has_role d uid ''admin''"
proof (cases "\<exists>pr\<in>set (profiles d). pr_user_id pr = uid")
  case True
  then obtain pr where pr: "pr \<in> set (profiles d)" "pr_user_id pr = uid" by blast
  from filter_key_unique [OF assms(1) pr(1)] pr(2)
  have sel: "filter (\<lambda>r. pr_user_id r = uid) (profiles d) = [pr]" by simp
  have "\<And>pr'. pr' \<in> set (profiles d) \<Longrightarrow> pr_user_id pr' = uid \<Longrightarrow> pr' = pr"
  proof -
    fix pr' assume "pr' \<in> set (profiles d)" "pr_user_id pr' = uid"
    then have "pr' \<in> set (filter (\<lambda>r. pr_user_id r = uid) (profiles d))" by simp
    with sel show "pr' = pr" by simp
  qed
  with pr have "has_role d uid ''admin'' = (pr_role pr = ''admin'')"
    unfolding has_role_def by blast
  with sel assms(2) show ?thesis
    by (simp add: profile_is_admin_def single_ok)
next
  case False
  then have "filter (\<lambda>r. pr_user_id r = uid) (profiles d) = []"
    by (simp add: filter_empty_conv)
  with False assms(2) show ?thesis
    by (auto simp: profile_is_admin_def single_none has_role_def)
qed

lemma valid_formD:
  "valid_form fd \<Longrightarrow> \<exists>q. fd_get ''question'' fd = Some q \<and> truthy q \<and>
     \<not> length (filter truthy (fd_getAll ''options'' fd)) < 2"
  by (auto simp: valid_form_def split: option.splits)

subsection \<open>submitVote\<close>

lemma submitVote_anonymous:
  "auth_user env = None \<Longrightarrow>
   submitVote env pollId k d =
     returned (store_write (fault env InsertVote) d
       (d\<lparr>votes := votes d @ [new_vote env pollId k]\<rparr>))"
  by (simp add: submitVote_def new_vote_def)

lemma submitVote_first:
  "auth_user env = Some u \<Longrightarrow> fault env SelectVote = None \<Longrightarrow>
   votes_of d pollId (u_id u) = [] \<Longrightarrow>
   submitVote env pollId k d =
     returned (store_write (fault env InsertVote) d
       (d\<lparr>votes := votes d @ [new_vote env pollId k]\<rparr>))"
  by (simp add: submitVote_def new_vote_def single_none pgrst116_code)

lemma submitVote_store:
  "submitVote env pollId k d = (fst (submitVote env pollId k d), d) \<and>
     fst (submitVote env pollId k d) \<noteq> None \<or>
   submitVote env pollId k d = (None, d\<lparr>votes := votes d @ [new_vote env pollId k]\<rparr>)"
  by (auto simp: submitVote_def new_vote_def returned_def store_write_def Let_def
           split: option.splits prod.splits)

text \<open>
  Served one after the other, the calls keep the invariant of the data model: a store
  with at most one vote for a pair of poll and voter still has at most one after
  \<^verbatim>\<open>submitVote\<close>, provided a failing lookup does not answer with the code
  \<^verbatim>\<open>PGRST116\<close>, which the action reads as the absence of a vote.
\<close>

lemma votes_of_append:
  "votes_of (d\<lparr>votes := votes d @ [w]\<rparr>) pid uid =
     votes_of d pid uid @ (if v_poll_id w = pid \<and> v_user_id w = Some uid then [w] else [])"
  by (simp add: votes_of_def)

lemma submitVote_keeps_unique:
  assumes "\<forall>e. fault env SelectVote = Some e \<longrightarrow> err_code e \<noteq> ''PGRST116''"
    and "length (votes_of d pid uid) \<le> 1"
  shows "length (votes_of (snd (submitVote env pollId k d)) pid uid) \<le> 1"
proof (cases "snd (submitVote env pollId k d) = d")
  case True
  with assms(2) show ?thesis by simp
next
  case False
  with submitVote_store [of env pollId k d]
  have ins: "submitVote env pollId k d = (None, d\<lparr>votes := votes d @ [new_vote env pollId k]\<rparr>)"
    by (metis snd_conv)
  show ?thesis
  proof (cases "pid = pollId \<and> Some uid = map_option u_id (auth_user env)")
    case False
    then have "votes_of (snd (submitVote env pollId k d)) pid uid = votes_of d pid uid"
      by (auto simp: ins votes_of_append new_vote_def)
    with assms(2) show ?thesis by simp
  next
    case True
    then obtain u where u: "auth_user env = Some u" "u_id u = uid" "pid = pollId"
      by (cases "auth_user env") auto
    have "votes_of d pollId uid = []"
    proof (rule ccontr)
      assume "votes_of d pollId uid \<noteq> []"
      with assms(2) u obtain w where "votes_of d pollId (u_id u) = [w]"
        by (cases "votes_of d pollId uid") auto
      with u assms(1) have "fst (submitVote env pollId k d) \<noteq> None"
        by (cases "fault env SelectVote") (auto simp: submitVote_def single_def)
      with ins show False by simp
    qed
    with u show ?thesis
      by (simp add: ins votes_of_append new_vote_def)
  qed
qed

lemma submitVotes_anonymous:
  "\<forall>q\<in>set reqs. auth_user (fst q) = None \<and> fault (fst q) InsertVote = None \<Longrightarrow>
   submitVotes pollId reqs d =
     (replicate (length reqs) None,
      d\<lparr>votes := votes d @ map (\<lambda>q. new_vote (fst q) pollId (snd q)) reqs\<rparr>)"
proof (induction reqs arbitrary: d)
  case Nil
  then show ?case by simp
next
  case (Cons q reqs)
  obtain env k where q: "q = (env, k)" by (cases q)
  from Cons.prems q have a: "auth_user env = None" "fault env InsertVote = None" by auto
  from Cons.prems
  have rest: "\<forall>q\<in>set reqs. auth_user (fst q) = None \<and> fault (fst q) InsertVote = None"
    by simp
  from a have one:
    "submitVote env pollId k d = (None, d\<lparr>votes := votes d @ [new_vote env pollId k]\<rparr>)"
    by (simp add: submitVote_anonymous returned_def store_write_def)
  show ?case
    by (simp add: q one Cons.IH [OF rest])
qed

subsection \<open>createPoll, deletePoll, updatePoll\<close>

lemma createPoll_invalid:
  "\<not> valid_form fd \<Longrightarrow> createPoll env fd d = (Some msg_invalid_input, d)"
  by (auto simp: createPoll_def valid_form_def Let_def split: option.splits)

lemma createPoll_valid:
  assumes "valid_form fd" and "fd_get ''question'' fd = Some q"
  shows "createPoll env fd d =
     (case auth_error env of
        Some e \<Rightarrow> (Some (err_message e), d)
      | None \<Rightarrow>
         (case auth_user env of
            None \<Rightarrow> (Some msg_login_create, d)
          | Some u \<Rightarrow>
              returned (store_write (fault env InsertPoll) d
                (d\<lparr>polls := polls d @
                     [\<lparr>p_id = fresh_id env, p_user_id = u_id u, p_question = q,
                       p_options = filter truthy (fd_getAll ''options'' fd),
                       p_created_at = now env\<rparr>]\<rparr>))))"
  using assms
  by (auto simp: createPoll_def Let_def dest!: valid_formD split: option.splits)

lemma deletePoll_unauthenticated:
  "auth_user env = None \<Longrightarrow>
   deletePoll env ident d =
     (Some (case auth_error env of Some e \<Rightarrow> err_message e | None \<Rightarrow> msg_login_delete), d)"
  by (auto simp: deletePoll_def split: option.splits)

lemma deletePoll_authorized:
  assumes "distinct (map p_id (polls d))" and "p \<in> set (polls d)"
    and "distinct (map pr_user_id (profiles d))"
    and "fault env SelectPoll = None" and "fault env SelectProfile = None"
    and "auth_user env = Some i" and "auth_error env = None"
  shows "deletePoll env (p_id p) d =
           (if canWrite d i p
            then returned (store_write (fault env DeletePoll) d
                   (d\<lparr>polls := filter (\<lambda>r. p_id r \<noteq> p_id p) (polls d)\<rparr>))
            else (Some msg_not_authorized_delete, d))"
proof -
  have sel: "filter (\<lambda>r. p_id r = p_id p) (polls d) = [p]"
    using assms(1,2) by (rule filter_key_unique)
  have adm: "profile_is_admin env (u_id i) d = has_role d (u_id i) ''admin''"
    using assms(3,5) by (rule profile_is_admin_has_role)
  show ?thesis
    using assms(4,6,7) by (auto simp add: deletePoll_def sel single_ok adm canWrite_def)
qed

lemma updatePoll_invalid:
  "\<not> valid_form fd \<Longrightarrow> updatePoll env pollId fd d = (Some msg_invalid_input, d)"
  by (auto simp: updatePoll_def valid_form_def Let_def split: option.splits)

lemma updatePoll_unauthenticated:
  "valid_form fd \<Longrightarrow> auth_user env = None \<Longrightarrow>
   updatePoll env pollId fd d =
     (Some (case auth_error env of Some e \<Rightarrow> err_message e | None \<Rightarrow> msg_login_update), d)"
  by (auto simp: updatePoll_def Let_def dest!: valid_formD split: option.splits)

lemma updatePoll_not_found:
  assumes "\<forall>r\<in>set (polls d). p_id r \<noteq> pollId" and "valid_form fd"
    and "auth_user env = Some u" and "auth_error env = None"
  shows "updatePoll env pollId fd d = (Some msg_not_found_update, d)"
proof -
  from assms(1) have sel: "filter (\<lambda>r. p_id r = pollId) (polls d) = []"
    by (simp add: filter_empty_conv)
  from assms(2) obtain q where q: "fd_get ''question'' fd = Some q" "truthy q"
      "\<not> length (filter truthy (fd_getAll ''options'' fd)) < 2"
    by (auto dest: valid_formD)
  show ?thesis
    using assms(3,4) q
    by (cases "fault env SelectPoll")
       (simp_all add: updatePoll_def sel single_none single_fault Let_def)
qed

text \<open>
  With \<^verbatim>\<open>id\<close> a key of \<^verbatim>\<open>polls\<close>, the extra filter on \<^verbatim>\<open>user_id\<close> of an owner's
  update selects the same row as the filter on \<^verbatim>\<open>id\<close> alone.
\<close>

lemma update_rows_eq:
  assumes "distinct (map p_id (polls d))" and "p \<in> set (polls d)"
    and "A \<or> p_user_id p = uid"
  shows "map (\<lambda>r. if p_id r = p_id p \<and> (A \<or> p_user_id r = uid) then g r else r) (polls d) =
         map (\<lambda>r. if p_id r = p_id p then g r else r) (polls d)"
proof (rule map_cong [OF refl])
  fix r assume r: "r \<in> set (polls d)"
  show "(if p_id r = p_id p \<and> (A \<or> p_user_id r = uid) then g r else r) =
        (if p_id r = p_id p then g r else r)"
  proof (cases "p_id r = p_id p")
    case True
    with assms(1,2) r have "r = p"
      by (meson distinct_map inj_on_eq_iff)
    with assms(3) show ?thesis by auto
  next
    case False
    then show ?thesis by simp
  qed
qed

lemma updatePoll_authorized:
  assumes "distinct (map p_id (polls d))" and "p \<in> set (polls d)"
    and "distinct (map pr_user_id (profiles d))"
    and "fault env SelectPoll = None" and "fault env SelectProfile = None"
    and "auth_user env = Some i" and "auth_error env = None"
    and "valid_form fd" and "fd_get ''question'' fd = Some q"
  shows "updatePoll env (p_id p) fd d =
           (if canWrite d i p
            then returned (store_write (fault env UpdatePoll) d
                   (d\<lparr>polls := map (\<lambda>r. if p_id r = p_id p
                                        then r\<lparr>p_question := q,
                                               p_options := filter truthy (fd_getAll ''options'' fd)\<rparr>
                                        else r) (polls d)\<rparr>))
            else (Some msg_not_authorized_update, d))"
proof -
  have sel: "filter (\<lambda>r. p_id r = p_id p) (polls d) = [p]"
    using assms(1,2) by (rule filter_key_unique)
  have adm: "profile_is_admin env (u_id i) d = has_role d (u_id i) ''admin''"
    using assms(3,5) by (rule profile_is_admin_has_role)
  from assms(8,9) have v: "truthy q" "\<not> length (filter truthy (fd_getAll ''options'' fd)) < 2"
    by (auto dest: valid_formD)
  show ?thesis
  proof (cases "canWrite d i p")
    case False
    with assms(4,6,7,9) v show ?thesis
      by (auto simp add: updatePoll_def sel single_ok adm canWrite_def Let_def)
  next
    case True
    then have c: "(p_user_id p \<noteq> u_id i \<and> has_role d (u_id i) ''admin'') \<or> p_user_id p = u_id i"
      by (auto simp: canWrite_def)
    note rows = update_rows_eq [OF assms(1,2) c]
    from True have nd: "\<not> (p_user_id p \<noteq> u_id i \<and> \<not> has_role d (u_id i) ''admin'')"
      by (auto simp: canWrite_def)
    show ?thesis
      using assms(4,6,7,9) v True nd
      by (auto simp add: updatePoll_def sel single_ok adm Let_def rows)
  qed
qed

section \<open>The claims\<close>

subsection \<open>C1: who may update and delete\<close>

text \<open>
  C1, as stated, fails for \<^verbatim>\<open>updatePoll\<close>: the form is validated before the session is
  read, so on an invalid form neither an absent identity gets an authentication error nor
  does the owner reach the write. The poll \<^verbatim>\<open>p1\<close> of the example store belongs to
  \<^verbatim>\<open>alice\<close>; with an empty question the anonymous caller and \<^verbatim>\<open>alice\<close> both get the
  validation message, which is not the login message, and the store is unchanged.
\<close>

theorem write_authorization_counterexample:
  "polls ex_db = [ex_poll] \<and> p_id ex_poll = ''p1'' \<and> p_user_id ex_poll = ''alice'' \<and>
   updatePoll (ex_env None) ''p1'' [(''question'', []), (''options'', ''A''), (''options'', ''B'')] ex_db
     = (Some msg_invalid_input, ex_db) \<and>
   updatePoll (ex_env (Some ''alice'')) ''p1''
       [(''question'', []), (''options'', ''A''), (''options'', ''B'')] ex_db
     = (Some msg_invalid_input, ex_db) \<and>
   msg_invalid_input \<noteq> msg_login_update"
  by (simp add: updatePoll_def fd_get_def fd_getAll_def truthy_def ex_defs)

text \<open>
  C1 (amended): let \<open>p\<close> be a poll of the store, \<^verbatim>\<open>id\<close> a key of \<^verbatim>\<open>polls\<close> and
  \<^verbatim>\<open>user_id\<close> a key of \<^verbatim>\<open>profiles\<close>, the two lookups not failed by the store, and the
  form submitted to \<^verbatim>\<open>updatePoll\<close> valid. For a present identity \<open>i\<close> (the session
  reporting no error), \<^verbatim>\<open>deletePoll\<close> and \<^verbatim>\<open>updatePoll\<close> issue their storage write and
  return its outcome if \<open>i\<close> owns \<open>p\<close> or has the role \<^verbatim>\<open>admin\<close>, and otherwise return the
  not-authorized message and leave the store as it was. For an absent identity both
  return an authentication error (the session's own message, else the login message) and
  leave the store as it was.
\<close>

theorem write_authorization:
  assumes "distinct (map p_id (polls d))" and "p \<in> set (polls d)"
    and "distinct (map pr_user_id (profiles d))"
    and "fault env SelectPoll = None" and "fault env SelectProfile = None"
    and "valid_form fd" and "fd_get ''question'' fd = Some q"
  shows "(auth_user env = Some i \<and> auth_error env = None \<longrightarrow>
            deletePoll env (p_id p) d =
              (if canWrite d i p
               then returned (store_write (fault env DeletePoll) d
                      (d\<lparr>polls := filter (\<lambda>r. p_id r \<noteq> p_id p) (polls d)\<rparr>))
               else (Some msg_not_authorized_delete, d)) \<and>
            updatePoll env (p_id p) fd d =
              (if canWrite d i p
               then returned (store_write (fault env UpdatePoll) d
                      (d\<lparr>polls := map (\<lambda>r. if p_id r = p_id p
                                           then r\<lparr>p_question := q,
                                                  p_options := filter truthy (fd_getAll ''options'' fd)\<rparr>
                                           else r) (polls d)\<rparr>))
               else (Some msg_not_authorized_update, d))) \<and>
         (auth_user env = None \<longrightarrow>
            deletePoll env (p_id p) d =
              (Some (case auth_error env of Some e \<Rightarrow> err_message e | None \<Rightarrow> msg_login_delete), d) \<and>
            updatePoll env (p_id p) fd d =
              (Some (case auth_error env of Some e \<Rightarrow> err_message e | None \<Rightarrow> msg_login_update), d))"
proof (intro conjI impI)
  assume a: "auth_user env = Some i \<and> auth_error env = None"
  then show "deletePoll env (p_id p) d =
              (if canWrite d i p
               then returned (store_write (fault env DeletePoll) d
                      (d\<lparr>polls := filter (\<lambda>r. p_id r \<noteq> p_id p) (polls d)\<rparr>))
               else (Some msg_not_authorized_delete, d))"
    using assms(1-5) by (simp add: deletePoll_authorized)
  from a show "updatePoll env (p_id p) fd d =
              (if canWrite d i p
               then returned (store_write (fault env UpdatePoll) d
                      (d\<lparr>polls := map (\<lambda>r. if p_id r = p_id p
                                           then r\<lparr>p_question := q,
                                                  p_options := filter truthy (fd_getAll ''options'' fd)\<rparr>
                                           else r) (polls d)\<rparr>))
               else (Some msg_not_authorized_update, d))"
    using assms by (simp add: updatePoll_authorized)
next
  assume "auth_user env = None"
  then show "deletePoll env (p_id p) d =
              (Some (case auth_error env of Some e \<Rightarrow> err_message e | None \<Rightarrow> msg_login_delete), d)"
    by (rule deletePoll_unauthenticated)
next
  assume "auth_user env = None"
  with assms(6) show "updatePoll env (p_id p) fd d =
              (Some (case auth_error env of Some e \<Rightarrow> err_message e | None \<Rightarrow> msg_login_update), d)"
    by (rule updatePoll_unauthenticated)
qed

text \<open>
  On the example store: the admin \<^verbatim>\<open>root\<close> deletes \<^verbatim>\<open>alice\<close>'s poll, the owner updates
  it, \<^verbatim>\<open>bob\<close> (neither owner nor admin) is refused by both actions, and the anonymous
  caller is asked to log in.
\<close>

theorem write_authorization_witness:
  "deletePoll (ex_env (Some ''root'')) ''p1'' ex_db = (None, ex_db\<lparr>polls := []\<rparr>) \<and>
   updatePoll (ex_env (Some ''alice'')) ''p1'' ex_form ex_db =
     (None, ex_db\<lparr>polls := [ex_poll\<lparr>p_question := ''Best season?'',
                                     p_options := [''Winter'', ''Summer'']\<rparr>]\<rparr>) \<and>
   deletePoll (ex_env (Some ''bob'')) ''p1'' ex_db = (Some msg_not_authorized_delete, ex_db) \<and>
   updatePoll (ex_env (Some ''bob'')) ''p1'' ex_form ex_db = (Some msg_not_authorized_update, ex_db) \<and>
   deletePoll (ex_env None) ''p1'' ex_db = (Some msg_login_delete, ex_db) \<and>
   updatePoll (ex_env None) ''p1'' ex_form ex_db = (Some msg_login_update, ex_db)"
proof -
  have h1: "distinct (map p_id (polls ex_db))" by (simp add: ex_defs)
  have h2: "ex_poll \<in> set (polls ex_db)" by (simp add: ex_defs)
  have h3: "distinct (map pr_user_id (profiles ex_db))" by (simp add: ex_defs)
  have h4: "fault (ex_env who) SelectPoll = None" for who by (simp add: ex_defs)
  have h5: "fault (ex_env who) SelectProfile = None" for who by (simp add: ex_defs)
  have h6: "valid_form ex_form"
    by (simp add: valid_form_def fd_get_def fd_getAll_def truthy_def ex_defs)
  have h7: "fd_get ''question'' ex_form = Some ''Best season?''"
    by (simp add: fd_get_def ex_defs)
  have [simp]: "p_id ex_poll = ''p1''" by (simp add: ex_defs)
  have c1: "canWrite ex_db \<lparr>u_id = ''root''\<rparr> ex_poll"
    by (simp add: canWrite_def has_role_def ex_defs)
  have c2: "canWrite ex_db \<lparr>u_id = ''alice''\<rparr> ex_poll"
    by (simp add: canWrite_def has_role_def ex_defs)
  have c3: "\<not> canWrite ex_db \<lparr>u_id = ''bob''\<rparr> ex_poll"
    by (simp add: canWrite_def has_role_def ex_defs)
  have e: "auth_user (ex_env (Some n)) = Some \<lparr>u_id = n\<rparr>" "auth_error (ex_env who) = None"
    "auth_user (ex_env None) = None" "fault (ex_env who) c = None" for n who c
    by (simp_all add: ex_defs)
  have rows: "filter (\<lambda>r. p_id r \<noteq> ''p1'') (polls ex_db) = []"
    "map (\<lambda>r. if p_id r = ''p1''
              then r\<lparr>p_question := ''Best season?'',
                     p_options := filter truthy (fd_getAll ''options'' ex_form)\<rparr>
              else r) (polls ex_db) =
     [ex_poll\<lparr>p_question := ''Best season?'', p_options := [''Winter'', ''Summer'']\<rparr>]"
    by (simp_all add: fd_getAll_def truthy_def ex_defs)
  note root = write_authorization [OF h1 h2 h3 h4 [of "Some ''root''"] h5 [of "Some ''root''"] h6 h7,
      of "\<lparr>u_id = ''root''\<rparr>"]
  note alice = write_authorization [OF h1 h2 h3 h4 [of "Some ''alice''"] h5 [of "Some ''alice''"] h6 h7,
      of "\<lparr>u_id = ''alice''\<rparr>"]
  note bob = write_authorization [OF h1 h2 h3 h4 [of "Some ''bob''"] h5 [of "Some ''bob''"] h6 h7,
      of "\<lparr>u_id = ''bob''\<rparr>"]
  note anon = write_authorization [OF h1 h2 h3 h4 [of None] h5 [of None] h6 h7,
      of "\<lparr>u_id = ''bob''\<rparr>"]
  from root alice bob anon show ?thesis
    by (simp add: e c1 c2 c3 rows returned_def store_write_def)
qed

subsection \<open>C2: the option index\<close>

text \<open>
  C2, as stated, fails: \<^verbatim>\<open>submitVote\<close> neither reads the poll nor compares the index
  with anything. On the example store the poll \<^verbatim>\<open>p1\<close> has two options; an anonymous
  vote for index 7 succeeds and is stored, and so is \<^verbatim>\<open>bob\<close>'s vote for index \<open>-1\<close>.
\<close>

theorem option_index_counterexample:
  "polls ex_db = [ex_poll] \<and> p_id ex_poll = ''p1'' \<and> length (p_options ex_poll) = 2 \<and>
   submitVote (ex_env None) ''p1'' 7 ex_db =
     (None, ex_db\<lparr>votes := [\<lparr>v_id = ''n1'', v_poll_id = ''p1'', v_user_id = None,
                               v_option_index = 7, v_created_at = 2\<rparr>]\<rparr>) \<and>
   submitVote (ex_env (Some ''bob'')) ''p1'' (- 1) ex_db =
     (None, ex_db\<lparr>votes := [\<lparr>v_id = ''n1'', v_poll_id = ''p1'', v_user_id = Some ''bob'',
                               v_option_index = - 1, v_created_at = 2\<rparr>]\<rparr>)"
  by (simp add: submitVote_def votes_of_def single_def pgrst116_def returned_def
                store_write_def ex_defs)

text \<open>
  C2 (amended): for every option index, in range or not, \<^verbatim>\<open>submitVote\<close> succeeds
  whenever no other reason denies the vote, that is, when the caller is anonymous or has
  no vote on the poll in the store (the lookup not failed) and the store accepts the
  insert; the store is then the old one with one vote appended that names the poll and
  carries the index as given. No index is refused: for the same caller, poll id, store
  and storage responses the returned error is the same for any two indices, and every
  successful call has appended its vote.
\<close>

theorem option_index_unchecked:
  "(fault env InsertVote = None \<and>
    (case auth_user env of
       None \<Rightarrow> True
     | Some u \<Rightarrow> fault env SelectVote = None \<and> votes_of d pollId (u_id u) = []) \<longrightarrow>
      submitVote env pollId k d = (None, d\<lparr>votes := votes d @ [new_vote env pollId k]\<rparr>) \<and>
      v_poll_id (new_vote env pollId k) = pollId \<and>
      v_option_index (new_vote env pollId k) = k) \<and>
   fst (submitVote env pollId k d) = fst (submitVote env pollId k' d) \<and>
   (fst (submitVote env pollId k d) = None \<longrightarrow>
      snd (submitVote env pollId k d) = d\<lparr>votes := votes d @ [new_vote env pollId k]\<rparr>)"
proof (intro conjI impI)
  assume a: "fault env InsertVote = None \<and>
    (case auth_user env of
       None \<Rightarrow> True
     | Some u \<Rightarrow> fault env SelectVote = None \<and> votes_of d pollId (u_id u) = [])"
  show "submitVote env pollId k d = (None, d\<lparr>votes := votes d @ [new_vote env pollId k]\<rparr>)"
  proof (cases "auth_user env")
    case None
    with a show ?thesis
      by (simp add: submitVote_anonymous returned_def store_write_def)
  next
    case (Some u)
    with a show ?thesis
      by (simp add: submitVote_first returned_def store_write_def)
  qed
next
  show "v_poll_id (new_vote env pollId k) = pollId" by (simp add: new_vote_def)
next
  show "v_option_index (new_vote env pollId k) = k" by (simp add: new_vote_def)
next
  show "fst (submitVote env pollId k d) = fst (submitVote env pollId k' d)"
    by (auto simp: submitVote_def returned_def store_write_def Let_def
             split: option.splits prod.splits)
next
  assume "fst (submitVote env pollId k d) = None"
  with submitVote_store [of env pollId k d]
  show "snd (submitVote env pollId k d) = d\<lparr>votes := votes d @ [new_vote env pollId k]\<rparr>"
    by auto
qed

text \<open>
  On the example store, whose poll \<^verbatim>\<open>p1\<close> has two options: \<^verbatim>\<open>bob\<close>'s vote for index
  0 succeeds, and so do his vote for index \<open>-1\<close> and an anonymous vote for index 7.
\<close>

theorem option_index_unchecked_witness:
  "length (p_options ex_poll) = 2 \<and>
   submitVote (ex_env (Some ''bob'')) ''p1'' 0 ex_db =
     (None, ex_db\<lparr>votes := [new_vote (ex_env (Some ''bob'')) ''p1'' 0]\<rparr>) \<and>
   submitVote (ex_env (Some ''bob'')) ''p1'' (- 1) ex_db =
     (None, ex_db\<lparr>votes := [new_vote (ex_env (Some ''bob'')) ''p1'' (- 1)]\<rparr>) \<and>
   submitVote (ex_env None) ''p1'' 7 ex_db =
     (None, ex_db\<lparr>votes := [new_vote (ex_env None) ''p1'' 7]\<rparr>) \<and>
   v_option_index (new_vote (ex_env None) ''p1'' 7) = 7"
proof -
  have n: "length (p_options ex_poll) = 2" by (simp add: ex_defs)
  have i: "fault (ex_env who) InsertVote = None" for who by (simp add: ex_defs)
  have b: "case auth_user (ex_env (Some ''bob'')) of
             None \<Rightarrow> True
           | Some u \<Rightarrow> fault (ex_env (Some ''bob'')) SelectVote = None \<and>
                       votes_of ex_db ''p1'' (u_id u) = []"
    by (simp add: votes_of_def ex_defs)
  have a: "case auth_user (ex_env None) of
             None \<Rightarrow> True
           | Some u \<Rightarrow> fault (ex_env None) SelectVote = None \<and>
                       votes_of ex_db ''p1'' (u_id u) = []"
    by (simp add: ex_defs)
  have v: "votes ex_db = []" by (simp add: ex_defs)
  from option_index_unchecked [of "ex_env (Some ''bob'')" ex_db "''p1''" 0 0]
       option_index_unchecked [of "ex_env (Some ''bob'')" ex_db "''p1''" "- 1" 0]
       option_index_unchecked [of "ex_env None" ex_db "''p1''" 7 0]
       n i b a v
  show ?thesis by simp
qed

subsection \<open>C3: a second vote of the same user\<close>

text \<open>
  C3: for an authenticated caller \<open>u\<close> whose vote \<open>v\<close> on the poll is in the store, the
  store holding at most one vote for the pair (the invariant of the data model) and the
  lookup not failed, \<^verbatim>\<open>submitVote\<close> with any index returns the already-voted message and
  leaves the store as it was, so the store holds exactly one vote for the pair.
\<close>

theorem duplicate_vote_refused:
  assumes "auth_user env = Some u" and "fault env SelectVote = None"
    and "v \<in> set (votes d)" and "v_poll_id v = pollId" and "v_user_id v = Some (u_id u)"
    and "length (votes_of d pollId (u_id u)) \<le> 1"
  shows "submitVote env pollId anyIndex d = (Some msg_already_voted, d) \<and>
         length (votes_of (snd (submitVote env pollId anyIndex d)) pollId (u_id u)) = 1"
proof -
  from assms(3-5) have "v \<in> set (votes_of d pollId (u_id u))"
    by (simp add: votes_of_def)
  then have "votes_of d pollId (u_id u) \<noteq> []" by auto
  with assms(6) obtain w where w: "votes_of d pollId (u_id u) = [w]"
    by (cases "votes_of d pollId (u_id u)") auto
  with assms(1,2) have "submitVote env pollId anyIndex d = (Some msg_already_voted, d)"
    by (simp add: submitVote_def single_ok)
  with w show ?thesis by simp
qed

text \<open>
  Scenario E on the example store: \<^verbatim>\<open>bob\<close> votes for index 0, which stores his vote;
  his second vote, for index 1, is refused and the store still holds that one vote.
\<close>

theorem duplicate_vote_refused_witness:
  "submitVote (ex_env (Some ''bob'')) ''p1'' 0 ex_db = (None, ex_db_voted) \<and>
   submitVote (ex_env (Some ''bob'')) ''p1'' 1 ex_db_voted = (Some msg_already_voted, ex_db_voted) \<and>
   votes_of ex_db_voted ''p1'' ''bob'' = [ex_vote]"
proof -
  have first: "submitVote (ex_env (Some ''bob'')) ''p1'' 0 ex_db = (None, ex_db_voted)"
    by (simp add: submitVote_def votes_of_def single_def pgrst116_def returned_def
                  store_write_def ex_defs)
  have h1: "auth_user (ex_env (Some ''bob'')) = Some \<lparr>u_id = ''bob''\<rparr>" by (simp add: ex_defs)
  have h2: "fault (ex_env (Some ''bob'')) SelectVote = None" by (simp add: ex_defs)
  have h3: "ex_vote \<in> set (votes ex_db_voted)" by (simp add: ex_defs)
  have h4: "v_poll_id ex_vote = ''p1''" by (simp add: ex_defs)
  have h5: "v_user_id ex_vote = Some (u_id \<lparr>u_id = ''bob''\<rparr>)" by (simp add: ex_defs)
  have vs: "votes_of ex_db_voted ''p1'' ''bob'' = [ex_vote]"
    by (simp add: votes_of_def ex_defs)
  then have h6: "length (votes_of ex_db_voted ''p1'' (u_id \<lparr>u_id = ''bob''\<rparr>)) \<le> 1" by simp
  from duplicate_vote_refused [OF h1 h2 h3 h4 h5 h6, of 1] first vs
  show ?thesis by simp
qed

subsection \<open>C4: a failed insert\<close>

text \<open>
  C4, as stated, fails: no error of the insert is translated. When the store refuses
  \<^verbatim>\<open>bob\<close>'s insert with a uniqueness violation (the duplicate check having found no
  vote), the caller receives the message of that error, which is not the already-voted
  message of the check.
\<close>

theorem insert_conflict_counterexample:
  "submitVote (ex_env_failing InsertVote ex_conflict (Some ''bob'')) ''p1'' 0 ex_db =
     (Some ''duplicate key value violates unique constraint'', ex_db) \<and>
   ''duplicate key value violates unique constraint'' \<noteq> msg_already_voted"
  by (simp add: submitVote_def votes_of_def single_def pgrst116_def returned_def
                store_write_def ex_defs)

text \<open>
  C4 (amended): when the duplicate check does not end the call (the caller is anonymous,
  or the lookup is not failed and finds no vote of the caller on the poll) and the storage
  insert fails with an error \<open>e\<close>, a uniqueness violation or any other, \<^verbatim>\<open>submitVote\<close>
  returns the message of \<open>e\<close> unchanged and leaves the store as it was.
\<close>

theorem insert_error_propagated:
  assumes "fault env InsertVote = Some e"
    and "case auth_user env of
           None \<Rightarrow> True
         | Some u \<Rightarrow> fault env SelectVote = None \<and> votes_of d pollId (u_id u) = []"
  shows "submitVote env pollId k d = (Some (err_message e), d)"
  using assms
  by (auto simp: submitVote_anonymous submitVote_first returned_def store_write_def
           split: option.splits)

theorem insert_error_propagated_witness:
  "submitVote (ex_env_failing InsertVote ex_conflict (Some ''bob'')) ''p1'' 0 ex_db =
     (Some (err_message ex_conflict), ex_db) \<and>
   submitVote (ex_env_failing InsertVote ex_conflict None) ''p1'' 0 ex_db =
     (Some (err_message ex_conflict), ex_db)"
proof -
  have h1: "fault (ex_env_failing InsertVote ex_conflict who) InsertVote = Some ex_conflict"
    for who by (simp add: ex_defs)
  have h2: "case auth_user (ex_env_failing InsertVote ex_conflict (Some ''bob'')) of
              None \<Rightarrow> True
            | Some u \<Rightarrow> fault (ex_env_failing InsertVote ex_conflict (Some ''bob'')) SelectVote = None \<and>
                        votes_of ex_db ''p1'' (u_id u) = []"
    by (simp add: votes_of_def ex_defs)
  have h3: "case auth_user (ex_env_failing InsertVote ex_conflict None) of
              None \<Rightarrow> True
            | Some u \<Rightarrow> fault (ex_env_failing InsertVote ex_conflict None) SelectVote = None \<and>
                        votes_of ex_db ''p1'' (u_id u) = []"
    by (simp add: ex_defs)
  from insert_error_propagated [OF h1 h2, of 0] insert_error_propagated [OF h1 h3, of 0]
  show ?thesis by simp
qed

subsection \<open>C5: anonymous votes\<close>

text \<open>
  C5: for an anonymous caller whose insert the store accepts, \<^verbatim>\<open>submitVote\<close> succeeds
  and appends a vote without a voter, whatever votes the store already holds and
  whatever the vote lookup would answer; and any sequence of such calls on one poll
  succeeds as a whole, each call appending its vote.
\<close>

theorem anonymous_votes_succeed:
  "(auth_user env = None \<and> fault env InsertVote = None \<longrightarrow>
      submitVote env pollId k d = (None, d\<lparr>votes := votes d @ [new_vote env pollId k]\<rparr>) \<and>
      v_user_id (new_vote env pollId k) = None) \<and>
   ((\<forall>q\<in>set reqs. auth_user (fst q) = None \<and> fault (fst q) InsertVote = None) \<longrightarrow>
      submitVotes pollId reqs d =
        (replicate (length reqs) None,
         d\<lparr>votes := votes d @ map (\<lambda>q. new_vote (fst q) pollId (snd q)) reqs\<rparr>))"
  by (auto simp: submitVote_anonymous submitVotes_anonymous returned_def store_write_def
                 new_vote_def)

text \<open>Scenario F on the example store: two anonymous votes on \<^verbatim>\<open>p1\<close>, both stored.\<close>

theorem anonymous_votes_succeed_witness:
  "submitVote (ex_env None) ''p1'' 0 ex_db =
     (None, ex_db\<lparr>votes := [new_vote (ex_env None) ''p1'' 0]\<rparr>) \<and>
   submitVotes ''p1'' [(ex_env None, 0), (ex_env None, 1)] ex_db =
     ([None, None],
      ex_db\<lparr>votes := [new_vote (ex_env None) ''p1'' 0, new_vote (ex_env None) ''p1'' 1]\<rparr>) \<and>
   v_user_id (new_vote (ex_env None) ''p1'' 0) = None"
proof -
  have h: "auth_user (ex_env None) = None" "fault (ex_env None) InsertVote = None"
    by (simp_all add: ex_defs)
  have v: "votes ex_db = []" by (simp add: ex_defs)
  from anonymous_votes_succeed
         [of "ex_env None" "''p1''" 0 ex_db "[(ex_env None, 0), (ex_env None, 1)]"] h v
  show ?thesis by (simp del: submitVotes.simps)
qed

subsection \<open>C6: creating a poll\<close>

text \<open>
  C6: \<^verbatim>\<open>createPoll\<close> on a form whose question is missing or empty, or which has fewer
  than two non-empty options, returns the validation message and leaves the store as it
  was; on a valid form with no identity it returns an authentication error (the session's
  own message, else the login message) and leaves the store as it was; on a valid form
  with an identity, the session and the insert not failing, it appends one poll whose
  owner is the caller. Whatever the outcome, a poll in the store afterwards that was not
  there before is owned by the caller.
\<close>

theorem createPoll_outcomes:
  "(\<not> valid_form fd \<longrightarrow> createPoll env fd d = (Some msg_invalid_input, d)) \<and>
   (valid_form fd \<and> auth_user env = None \<longrightarrow>
      createPoll env fd d =
        (Some (case auth_error env of Some e \<Rightarrow> err_message e | None \<Rightarrow> msg_login_create), d)) \<and>
   (valid_form fd \<and> fd_get ''question'' fd = Some q \<and> auth_user env = Some u \<and>
    auth_error env = None \<and> fault env InsertPoll = None \<longrightarrow>
      createPoll env fd d =
        (None, d\<lparr>polls := polls d @
                    [\<lparr>p_id = fresh_id env, p_user_id = u_id u, p_question = q,
                      p_options = filter truthy (fd_getAll ''options'' fd),
                      p_created_at = now env\<rparr>]\<rparr>)) \<and>
   (\<forall>row\<in>set (polls (snd (createPoll env fd d))).
      row \<in> set (polls d) \<or> Some (p_user_id row) = map_option u_id (auth_user env))"
proof (intro conjI impI)
  assume "\<not> valid_form fd"
  then show "createPoll env fd d = (Some msg_invalid_input, d)" by (rule createPoll_invalid)
next
  assume a: "valid_form fd \<and> auth_user env = None"
  then obtain q' where "fd_get ''question'' fd = Some q'" by (auto dest: valid_formD)
  with a show "createPoll env fd d =
        (Some (case auth_error env of Some e \<Rightarrow> err_message e | None \<Rightarrow> msg_login_create), d)"
    by (simp add: createPoll_valid split: option.splits)
next
  assume "valid_form fd \<and> fd_get ''question'' fd = Some q \<and> auth_user env = Some u \<and>
    auth_error env = None \<and> fault env InsertPoll = None"
  then show "createPoll env fd d =
        (None, d\<lparr>polls := polls d @
                    [\<lparr>p_id = fresh_id env, p_user_id = u_id u, p_question = q,
                      p_options = filter truthy (fd_getAll ''options'' fd),
                      p_created_at = now env\<rparr>]\<rparr>)"
    by (simp add: createPoll_valid returned_def store_write_def)
next
  show "\<forall>row\<in>set (polls (snd (createPoll env fd d))).
      row \<in> set (polls d) \<or> Some (p_user_id row) = map_option u_id (auth_user env)"
  proof (cases "valid_form fd")
    case False
    then show ?thesis by (simp add: createPoll_invalid)
  next
    case True
    then obtain q' where "fd_get ''question'' fd = Some q'" by (auto dest: valid_formD)
    with True show ?thesis
      by (auto simp: createPoll_valid returned_def store_write_def split: option.splits)
  qed
qed

text \<open>
  Scenario B and its neighbours on the example store: one option only is refused; the
  valid form is refused for the anonymous caller; for \<^verbatim>\<open>bob\<close> it is stored under his id,
  the empty option of the form dropped.
\<close>

theorem createPoll_outcomes_witness:
  "createPoll (ex_env (Some ''bob'')) [(''question'', ''Q''), (''options'', ''OnlyOne'')] ex_db =
     (Some msg_invalid_input, ex_db) \<and>
   createPoll (ex_env None) ex_form ex_db = (Some msg_login_create, ex_db) \<and>
   createPoll (ex_env (Some ''bob'')) ex_form ex_db =
     (None, ex_db\<lparr>polls := [ex_poll,
                              \<lparr>p_id = ''n1'', p_user_id = ''bob'', p_question = ''Best season?'',
                                p_options = [''Winter'', ''Summer''], p_created_at = 2\<rparr>]\<rparr>)"
proof -
  have bad: "\<not> valid_form [(''question'', ''Q''), (''options'', ''OnlyOne'')]"
    by (simp add: valid_form_def fd_get_def fd_getAll_def truthy_def)
  have good: "valid_form ex_form" "fd_get ''question'' ex_form = Some ''Best season?''"
    "filter truthy (fd_getAll ''options'' ex_form) = [''Winter'', ''Summer'']"
    by (simp_all add: valid_form_def fd_get_def fd_getAll_def truthy_def ex_defs)
  have e: "auth_user (ex_env None) = None" "auth_error (ex_env who) = None"
    "auth_user (ex_env (Some ''bob'')) = Some \<lparr>u_id = ''bob''\<rparr>"
    "fault (ex_env who) InsertPoll = None" "fresh_id (ex_env who) = ''n1''"
    "now (ex_env who) = 2" "polls ex_db = [ex_poll]" for who
    by (simp_all add: ex_defs)
  from createPoll_outcomes [of "[(''question'', ''Q''), (''options'', ''OnlyOne'')]"
         "ex_env (Some ''bob'')" ex_db "''Q''" "\<lparr>u_id = ''bob''\<rparr>"]
       createPoll_outcomes [of ex_form "ex_env None" ex_db "''Best season?''" "\<lparr>u_id = ''bob''\<rparr>"]
       createPoll_outcomes [of ex_form "ex_env (Some ''bob'')" ex_db "''Best season?''"
         "\<lparr>u_id = ''bob''\<rparr>"]
  show ?thesis
    by (simp add: bad good e)
qed

subsection \<open>C7: the order of the checks of updatePoll\<close>

text \<open>
  C7, as stated, fails: \<^verbatim>\<open>updatePoll\<close> validates the form first, reads the session
  second and fetches the poll third. No poll of the example store has the id \<^verbatim>\<open>p9\<close>;
  updating it with an empty question returns the validation message, and updating it
  anonymously with a valid form returns the login message; neither is the not-found
  message.
\<close>

theorem update_order_counterexample:
  "''p9'' \<notin> set (map p_id (polls ex_db)) \<and>
   updatePoll (ex_env (Some ''alice'')) ''p9''
       [(''question'', []), (''options'', ''A''), (''options'', ''B'')] ex_db
     = (Some msg_invalid_input, ex_db) \<and>
   updatePoll (ex_env None) ''p9'' ex_form ex_db = (Some msg_login_update, ex_db) \<and>
   msg_invalid_input \<noteq> msg_not_found_update \<and> msg_login_update \<noteq> msg_not_found_update"
  by (simp add: updatePoll_def fd_get_def fd_getAll_def truthy_def ex_defs)

text \<open>
  C7 (amended): for a call naming a poll id that no poll of the store has, \<^verbatim>\<open>updatePoll\<close>
  leaves the store as it was and returns the validation message when the form is invalid;
  otherwise the session's error message when the session reports one; otherwise the login
  message when no identity is present; and the not-found message only when the form is
  valid and the caller is authenticated.
\<close>

theorem update_order:
  assumes "\<forall>r\<in>set (polls d). p_id r \<noteq> pollId"
  shows "updatePoll env pollId fd d =
           (Some (if \<not> valid_form fd then msg_invalid_input
                  else case auth_error env of
                         Some e \<Rightarrow> err_message e
                       | None \<Rightarrow> (case auth_user env of
                                    None \<Rightarrow> msg_login_update
                                  | Some u \<Rightarrow> msg_not_found_update)), d)"
proof (cases "valid_form fd")
  case False
  then show ?thesis by (simp add: updatePoll_invalid)
next
  case True
  note v = True
  show ?thesis
  proof (cases "auth_error env")
    case (Some e)
    with v show ?thesis
      by (auto simp: updatePoll_def Let_def dest!: valid_formD)
  next
    case None
    note ne = None
    show ?thesis
    proof (cases "auth_user env")
      case None
      with v ne show ?thesis by (simp add: updatePoll_unauthenticated)
    next
      case (Some u)
      with v ne assms show ?thesis by (simp add: updatePoll_not_found)
    qed
  qed
qed

theorem update_order_witness:
  "updatePoll (ex_env (Some ''alice'')) ''p9'' ex_form ex_db = (Some msg_not_found_update, ex_db)"
proof -
  have h: "\<forall>r\<in>set (polls ex_db). p_id r \<noteq> ''p9''" by (simp add: ex_defs)
  have good: "valid_form ex_form"
    by (simp add: valid_form_def fd_get_def fd_getAll_def truthy_def ex_defs)
  have e: "auth_error (ex_env (Some ''alice'')) = None"
    "auth_user (ex_env (Some ''alice'')) = Some \<lparr>u_id = ''alice''\<rparr>"
    by (simp_all add: ex_defs)
  from update_order [OF h, of "ex_env (Some ''alice'')" ex_form] show ?thesis
    by (simp add: good e)
qed

subsection \<open>C8: what an update leaves alone\<close>

text \<open>
  C8: after \<^verbatim>\<open>updatePoll\<close>, successful or not, the store holds the same polls in the
  same order with the same \<^verbatim>\<open>id\<close>, \<^verbatim>\<open>user_id\<close> and \<^verbatim>\<open>created_at\<close>; a poll with another
  id than the one named is unchanged in every field; votes and profiles are unchanged.
\<close>

theorem update_frame:
  assumes "updatePoll env pollId fd d = (r, d')"
  shows "list_all2 (\<lambda>p p'. p_id p' = p_id p \<and> p_user_id p' = p_user_id p \<and>
                            p_created_at p' = p_created_at p \<and>
                            (p_id p \<noteq> pollId \<longrightarrow> p' = p))
           (polls d) (polls d') \<and>
         votes d' = votes d \<and> profiles d' = profiles d"
  using assms
  by (auto simp: updatePoll_def Let_def returned_def store_write_def
                 list_all2_map2 list_all2_same
           split: option.splits prod.splits if_splits)

theorem update_frame_witness:
  "updatePoll (ex_env (Some ''alice'')) ''p1'' ex_form ex_db =
     (None, ex_db\<lparr>polls := [ex_poll\<lparr>p_question := ''Best season?'',
                                     p_options := [''Winter'', ''Summer'']\<rparr>]\<rparr>) \<and>
   list_all2 (\<lambda>p p'. p_id p' = p_id p \<and> p_user_id p' = p_user_id p \<and>
                      p_created_at p' = p_created_at p \<and> (p_id p \<noteq> ''p1'' \<longrightarrow> p' = p))
     (polls ex_db)
     (polls (ex_db\<lparr>polls := [ex_poll\<lparr>p_question := ''Best season?'',
                                      p_options := [''Winter'', ''Summer'']\<rparr>]\<rparr>))"
proof -
  have run: "updatePoll (ex_env (Some ''alice'')) ''p1'' ex_form ex_db =
     (None, ex_db\<lparr>polls := [ex_poll\<lparr>p_question := ''Best season?'',
                                     p_options := [''Winter'', ''Summer'']\<rparr>]\<rparr>)"
    by (simp add: updatePoll_def fd_get_def fd_getAll_def truthy_def single_def
                  returned_def store_write_def ex_defs)
  from update_frame [OF run] run show ?thesis by simp
qed

subsection \<open>C9: whose vote is stored\<close>

text \<open>
  C9: \<^verbatim>\<open>submitVote\<close> changes nothing but the votes, and either leaves them as they were
  or appends exactly one vote, whose voter is the id of the authenticated caller, or
  none for an anonymous caller; a successful call appends it.
\<close>

theorem vote_carries_caller:
  assumes "submitVote env pollId k d = (r, d')"
  shows "polls d' = polls d \<and> profiles d' = profiles d \<and>
         (votes d' = votes d \<or> votes d' = votes d @ [new_vote env pollId k]) \<and>
         (r = None \<longrightarrow> votes d' = votes d @ [new_vote env pollId k]) \<and>
         v_user_id (new_vote env pollId k) = map_option u_id (auth_user env)"
  using assms submitVote_store [of env pollId k d]
  by (auto simp: new_vote_def)

theorem vote_carries_caller_witness:
  "submitVote (ex_env (Some ''bob'')) ''p1'' 0 ex_db = (None, ex_db_voted) \<and>
   votes ex_db_voted = [new_vote (ex_env (Some ''bob'')) ''p1'' 0] \<and>
   v_user_id (new_vote (ex_env (Some ''bob'')) ''p1'' 0) = Some ''bob''"
proof -
  have run: "submitVote (ex_env (Some ''bob'')) ''p1'' 0 ex_db = (None, ex_db_voted)"
    by (simp add: submitVote_def votes_of_def single_def pgrst116_def returned_def
                  store_write_def ex_defs)
  have e: "votes ex_db = []" "auth_user (ex_env (Some ''bob'')) = Some \<lparr>u_id = ''bob''\<rparr>"
    by (simp_all add: ex_defs)
  from vote_carries_caller [OF run] run e show ?thesis by simp
qed

subsection \<open>C10: listing the caller's polls\<close>

text \<open>
  C10: \<^verbatim>\<open>getUserPolls\<close> returns the empty list whenever it returns an error: the
  not-authenticated message for an absent identity, the message of the storage error
  when the query fails; when the identity is present and the query does not fail, the
  error is null and the list is the caller's polls, newest first.
\<close>

theorem getUserPolls_outcomes:
  "(snd (getUserPolls env d) \<noteq> None \<longrightarrow> fst (getUserPolls env d) = []) \<and>
   (auth_user env = None \<longrightarrow> getUserPolls env d = ([], Some msg_not_authenticated)) \<and>
   (auth_user env = Some u \<and> fault env SelectPolls = Some e \<longrightarrow>
      getUserPolls env d = ([], Some (err_message e))) \<and>
   (auth_user env = Some u \<and> fault env SelectPolls = None \<longrightarrow>
      getUserPolls env d =
        (rev (sort_key p_created_at (filter (\<lambda>p. p_user_id p = u_id u) (polls d))), None))"
  by (auto simp: getUserPolls_def select_rows_def split: option.splits)

theorem getUserPolls_outcomes_witness:
  "getUserPolls (ex_env None) ex_db = ([], Some msg_not_authenticated) \<and>
   getUserPolls (ex_env_failing SelectPolls ex_unavailable (Some ''alice'')) ex_db =
     ([], Some (err_message ex_unavailable)) \<and>
   getUserPolls (ex_env (Some ''alice'')) ex_db = ([ex_poll], None)"
proof -
  have e: "auth_user (ex_env None) = None"
    "auth_user (ex_env (Some ''alice'')) = Some \<lparr>u_id = ''alice''\<rparr>"
    "auth_user (ex_env_failing SelectPolls ex_unavailable (Some ''alice'')) = Some \<lparr>u_id = ''alice''\<rparr>"
    "fault (ex_env (Some ''alice'')) SelectPolls = None"
    "fault (ex_env_failing SelectPolls ex_unavailable (Some ''alice'')) SelectPolls = Some ex_unavailable"
    by (simp_all add: ex_defs)
  have rows: "filter (\<lambda>p. p_user_id p = ''alice'') (polls ex_db) = [ex_poll]"
    by (simp add: ex_defs)
  from getUserPolls_outcomes [of "ex_env None" ex_db "\<lparr>u_id = ''alice''\<rparr>" ex_unavailable]
       getUserPolls_outcomes [of "ex_env_failing SelectPolls ex_unavailable (Some ''alice'')" ex_db
         "\<lparr>u_id = ''alice''\<rparr>" ex_unavailable]
       getUserPolls_outcomes [of "ex_env (Some ''alice'')" ex_db "\<lparr>u_id = ''alice''\<rparr>" ex_unavailable]
  show ?thesis
    by (simp add: e rows)
qed

end
